theory Spec2Isabelle
  imports Complex_Main "HOL-Library.AList"
begin

section \<open>Python values and library functions\<close>

text \<open>
  The tutor is a Python program (\<^verbatim>\<open>geotutor_main.py\<close>). Its floats are modelled as
  exact reals: every statement below is about the arithmetic the code writes down, not
  about the rounding error of IEEE doubles. Python's unbounded integers are \<^typ>\<open>int\<close>.
  The floats the program computes and stores are finite; the float that \<^verbatim>\<open>float(text)\<close>
  reads from a text can also be \<^verbatim>\<open>nan\<close> or an infinity (type \<open>pyfloat\<close> below).

  A value stored in a dict of the program (a problem, a learner profile) is one of the
  scalars JSON can hold. Nested lists and dicts never occur as such a value in a
  well-formed profile and are left out.
\<close>

datatype pyval = PInt int | PFloat real | PStr string | PBool bool | PNone

text \<open>
  A Python \<^verbatim>\<open>dict\<close> keeps its keys in insertion order: an association list, read with
  \<^const>\<open>map_of\<close> and written with \<^const>\<open>AList.update\<close> (which replaces the value of a
  key in place, and appends a new key at the end, so keys stay distinct).
\<close>

type_synonym dict = "(string \<times> pyval) list"

text \<open>The exceptions the modelled code can let escape.\<close>

datatype exn =
  KeyError | TypeError | ValueError | AttributeError | OverflowError
  | JSONDecodeError | UnicodeDecodeError | RecursionError

text \<open>
  What \<^verbatim>\<open>float(text)\<close> returns: Python reads \<^verbatim>\<open>"nan"\<close>, \<^verbatim>\<open>"inf"\<close> and \<^verbatim>\<open>"-inf"\<close> (and
  their spellings) without raising.
\<close>

datatype pyfloat = Finite real | PosInf | NegInf | NaN

text \<open>
  \<^verbatim>\<open>round(x, ndigits)\<close> on a float rounds to the nearest multiple of \<open>10\<^sup>-\<^sup>n\<close>, ties to
  the even one.
\<close>

definition round_half_even :: "real \<Rightarrow> int" where
  "round_half_even x =
     (let f = \<lfloor>x\<rfloor>; d = x - of_int f
      in if d < 1 / 2 then f
         else if 1 / 2 < d then f + 1
         else if even f then f else f + 1)"

definition py_round :: "real \<Rightarrow> nat \<Rightarrow> real" where
  "py_round x ndigits = of_int (round_half_even (x * 10 ^ ndigits)) / 10 ^ ndigits"

text \<open>\<^verbatim>\<open>d.get(key, default)\<close>.\<close>

definition dict_get :: "dict \<Rightarrow> string \<Rightarrow> pyval \<Rightarrow> pyval" where
  "dict_get d key dflt = (case map_of d key of None \<Rightarrow> dflt | Some v \<Rightarrow> v)"

text \<open>
  What the program takes from outside itself is gathered in one record, so that every
  function below is a function of its arguments:
  \<^item> \<open>randint k a b\<close> and \<open>uniform k a b\<close>: the value that the \<open>k\<close>-th call made to the
    \<^verbatim>\<open>random\<close> module returns when that call is \<^verbatim>\<open>random.randint(a, b)\<close> or
    \<^verbatim>\<open>random.uniform(a, b)\<close>;
  \<^item> \<open>parse_float\<close>: \<^verbatim>\<open>float(text)\<close> on a string, \<open>None\<close> where it raises
    \<^verbatim>\<open>ValueError\<close>;
  \<^item> \<open>json_dumps\<close>: the text \<^verbatim>\<open>json.dump(db, f, indent=2)\<close> writes;
  \<^item> \<open>json_loads\<close>: what \<^verbatim>\<open>json.load(f)\<close> does on a file opened in text mode with the
    given contents (a \<^typ>\<open>char\<close> is a byte): the mapping read, or the exception raised,
    which is \<^verbatim>\<open>json.JSONDecodeError\<close> for text that is not JSON, \<^verbatim>\<open>UnicodeDecodeError\<close>
    for bytes that are not text in the file's encoding, \<^verbatim>\<open>RecursionError\<close> for nesting
    deeper than the interpreter's limit;
  \<^item> \<open>now_isoformat\<close>: \<^verbatim>\<open>datetime.now().isoformat(timespec="seconds")\<close>, and
    \<open>now_timestamp\<close>: the text of \<^verbatim>\<open>datetime.now().timestamp()\<close> in an f-string.
\<close>

record runtime =
  randint :: "nat \<Rightarrow> int \<Rightarrow> int \<Rightarrow> int"
  uniform :: "nat \<Rightarrow> real \<Rightarrow> real \<Rightarrow> real"
  parse_float :: "string \<Rightarrow> pyfloat option"
  json_dumps :: "(string \<times> dict) list \<Rightarrow> string"
  json_loads :: "string \<Rightarrow> exn + (string \<times> dict) list"
  now_isoformat :: string
  now_timestamp :: string

text \<open>\<^verbatim>\<open>float(v)\<close> on a stored value.\<close>

fun py_float :: "runtime \<Rightarrow> pyval \<Rightarrow> exn + pyfloat" where
  "py_float rt (PInt n) = Inr (Finite (of_int n))"
| "py_float rt (PFloat x) = Inr (Finite x)"
| "py_float rt (PBool b) = Inr (Finite (if b then 1 else 0))"
| "py_float rt (PStr s) = (case parse_float rt s of None \<Rightarrow> Inl ValueError | Some x \<Rightarrow> Inr x)"
| "py_float rt PNone = Inl TypeError"

text \<open>
  \<^verbatim>\<open>abs(user - correct_area) < 0.1\<close> on two floats: when either is \<^verbatim>\<open>nan\<close> or an
  infinity the difference is \<^verbatim>\<open>nan\<close> or an infinity and the comparison is false.
\<close>

fun within_tolerance :: "pyfloat \<Rightarrow> pyfloat \<Rightarrow> bool" where
  "within_tolerance (Finite user) (Finite correct_area) = (\<bar>user - correct_area\<bar> < 0.1)"
| "within_tolerance user correct_area = False"

text \<open>\<^verbatim>\<open>v + 1\<close> on a stored value.\<close>

fun py_add1 :: "pyval \<Rightarrow> exn + pyval" where
  "py_add1 (PInt n) = Inr (PInt (n + 1))"
| "py_add1 (PFloat x) = Inr (PFloat (x + 1))"
| "py_add1 (PBool b) = Inr (PInt ((if b then 1 else 0) + 1))"
| "py_add1 (PStr s) = Inl TypeError"
| "py_add1 PNone = Inl TypeError"

section \<open>The problem generator\<close>

text \<open>
  \<^verbatim>\<open>generate_problem(shape, difficulty)\<close>, lines 75 to 112. The third argument is the
  number of calls made to the \<^verbatim>\<open>random\<close> module so far; the result is the problem dict
  and that number after the call. A difficulty other than \<^verbatim>\<open>"easy"\<close> and \<^verbatim>\<open>"medium"\<close>
  takes the last block, and a shape other than \<^verbatim>\<open>"Triangle"\<close> and \<^verbatim>\<open>"Square"\<close> the
  rectangle's lines, as in the source.
\<close>

definition generate_problem :: "runtime \<Rightarrow> string \<Rightarrow> string \<Rightarrow> nat \<Rightarrow> dict \<times> nat" where
  "generate_problem rt shape difficulty k =
     (if difficulty = ''easy'' then
        (if shape = ''Triangle'' then
           (let b = randint rt k 3 8; h = randint rt (k + 1) 3 8
            in ([(''base'', PInt b), (''height'', PInt h),
                 (''area'', PFloat (py_round (0.5 * of_int b * of_int h) 2))], k + 2))
         else if shape = ''Square'' then
           (let s = randint rt k 3 8
            in ([(''side'', PInt s), (''area'', PFloat (of_int (s * s)))], k + 1))
         else
           (let l = randint rt k 4 8; w = randint rt (k + 1) 3 6
            in ([(''length'', PInt l), (''width'', PInt w),
                 (''area'', PFloat (of_int (l * w)))], k + 2)))
      else if difficulty = ''medium'' then
        (if shape = ''Triangle'' then
           (let b = randint rt k 6 12; h = uniform rt (k + 1) 5 10
            in ([(''base'', PInt b), (''height'', PFloat (py_round h 1)),
                 (''area'', PFloat (py_round (0.5 * of_int b * h) 2))], k + 2))
         else if shape = ''Square'' then
           (let s = randint rt k 7 15
            in ([(''side'', PInt s), (''area'', PFloat (of_int (s * s)))], k + 1))
         else
           (let l = randint rt k 8 15; w = randint rt (k + 1) 5 10
            in ([(''length'', PInt l), (''width'', PInt w),
                 (''area'', PFloat (of_int (l * w)))], k + 2)))
      else
        (if shape = ''Triangle'' then
           (let b = uniform rt k 8 20; h = uniform rt (k + 1) 6 15
            in ([(''base'', PFloat (py_round b 1)), (''height'', PFloat (py_round h 1)),
                 (''area'', PFloat (py_round (0.5 * b * h) 2))], k + 2))
         else if shape = ''Square'' then
           (let s = uniform rt k 10 25
            in ([(''side'', PFloat (py_round s 1)), (''area'', PFloat (py_round (s * s) 2))],
                k + 1))
         else
           (let l = uniform rt k 10 30; w = uniform rt (k + 1) 5 15
            in ([(''length'', PFloat (py_round l 1)), (''width'', PFloat (py_round w 1)),
                 (''area'', PFloat (py_round (l * w) 2))], k + 2))))"

text \<open>
  The closed-form area of a shape, applied to the dimensions a problem dict stores
  (\<open>None\<close> when a dimension is missing or is not a number): half base times height,
  side squared, length times width.
\<close>

fun num_of :: "pyval \<Rightarrow> real option" where
  "num_of (PInt n) = Some (of_int n)"
| "num_of (PFloat x) = Some x"
| "num_of v = None"

definition dim :: "dict \<Rightarrow> string \<Rightarrow> real option" where
  "dim p key = (case map_of p key of None \<Rightarrow> None | Some v \<Rightarrow> num_of v)"

definition formula_area :: "string \<Rightarrow> dict \<Rightarrow> real option" where
  "formula_area shape p =
     (if shape = ''Triangle'' then
        (case (dim p ''base'', dim p ''height'') of
           (Some b, Some h) \<Rightarrow> Some (0.5 * b * h) | _ \<Rightarrow> None)
      else if shape = ''Square'' then
        (case dim p ''side'' of Some s \<Rightarrow> Some (s * s) | _ \<Rightarrow> None)
      else
        (case (dim p ''length'', dim p ''width'') of
           (Some l, Some w) \<Rightarrow> Some (l * w) | _ \<Rightarrow> None))"

section \<open>Bayesian knowledge tracing\<close>

text \<open>The class \<^verbatim>\<open>BKT\<close>, lines 115 to 136: its four attributes and its constructor.\<close>

record BKT =
  p_known :: real
  p_guess :: real
  p_slip :: real
  p_learn :: real

definition BKT_init :: "real \<Rightarrow> BKT" where
  "BKT_init initial = \<lparr>p_known = initial, p_guess = 0.2, p_slip = 0.1, p_learn = 0.3\<rparr>"

text \<open>The locals \<^verbatim>\<open>num\<close> and \<^verbatim>\<open>den\<close> of \<^verbatim>\<open>BKT.update\<close>, lines 125 to 130.\<close>

definition BKT_num :: "bool \<Rightarrow> BKT \<Rightarrow> real" where
  "BKT_num correct self =
     (if correct then p_known self * (1 - p_slip self) else p_known self * p_slip self)"

definition BKT_den :: "bool \<Rightarrow> BKT \<Rightarrow> real" where
  "BKT_den correct self =
     (if correct then BKT_num correct self + (1 - p_known self) * p_guess self
      else BKT_num correct self + (1 - p_known self) * (1 - p_guess self))"

text \<open>
  \<^verbatim>\<open>BKT.update\<close>: the value returned and the object after the call. The division is
  skipped when the denominator is zero; the learning step always runs; only the
  returned value is rounded.
\<close>

definition BKT_update :: "bool \<Rightarrow> BKT \<Rightarrow> real \<times> BKT" where
  "BKT_update correct self =
     (let num = BKT_num correct self;
          den = BKT_den correct self;
          self1 = (if den \<noteq> 0 then self\<lparr>p_known := num / den\<rparr> else self);
          self2 = self1\<lparr>p_known := p_known self1 + (1 - p_known self1) * p_learn self1\<rparr>
      in (py_round (p_known self2) 3, self2))"

text \<open>A sequence of observations, each graded by one call of \<^verbatim>\<open>update\<close>.\<close>

definition BKT_run :: "bool list \<Rightarrow> BKT \<Rightarrow> BKT" where
  "BKT_run observations self = fold (\<lambda>correct b. snd (BKT_update correct b)) observations self"

text \<open>
  The update as the specification words it, on the probability alone and with the
  parameters written out: guess 0.2, slip 0.1, learn 0.3.
\<close>

definition spec_posterior :: "real \<Rightarrow> bool \<Rightarrow> real" where
  "spec_posterior pKnown correct =
     (let numerator = (if correct then pKnown * (1 - 0.1) else pKnown * 0.1);
          denominator = (if correct then numerator + (1 - pKnown) * 0.2
                         else numerator + (1 - pKnown) * (1 - 0.2))
      in if denominator \<noteq> 0 then numerator / denominator else pKnown)"

definition spec_update :: "real \<Rightarrow> bool \<Rightarrow> real" where
  "spec_update pKnown correct =
     (let posterior = spec_posterior pKnown correct in posterior + (1 - posterior) * 0.3)"

section \<open>The profile store\<close>

text \<open>
  The file system is a map from path to contents; only whole files are read and written.
  The store maps a learner id to that learner's profile dict. Lines 29 to 46.
\<close>

type_synonym filesystem = "string \<rightharpoonup> string"

type_synonym students = "(string \<times> dict) list"

definition STUDENTS_FILE :: string where
  "STUDENTS_FILE = ''students_data.json''"

text \<open>
  \<^verbatim>\<open>load_students()\<close>: the mapping returned or the exception that reaches the caller,
  and the file system afterwards. A file that does not exist gives the empty mapping.
  The \<^verbatim>\<open>except\<close> clause names \<^verbatim>\<open>json.JSONDecodeError\<close> only: on that exception the file
  is renamed (\<^verbatim>\<open>os.rename\<close>: the old path is gone, the new path holds the contents) and
  the empty mapping is returned; any other exception of \<^verbatim>\<open>json.load\<close> leaves the
  function, with the file system as it was.
\<close>

definition load_students :: "runtime \<Rightarrow> filesystem \<Rightarrow> (exn + students) \<times> filesystem" where
  "load_students rt fs =
     (case fs STUDENTS_FILE of
        None \<Rightarrow> (Inr [], fs)
      | Some contents \<Rightarrow>
          (case json_loads rt contents of
             Inr db \<Rightarrow> (Inr db, fs)
           | Inl e \<Rightarrow>
               if e = JSONDecodeError
               then (Inr [], (fs(STUDENTS_FILE := None))
                               (STUDENTS_FILE @ ''.bak_'' @ now_timestamp rt \<mapsto> contents))
               else (Inl e, fs)))"

text \<open>\<^verbatim>\<open>save_students(db)\<close>: mode \<^verbatim>\<open>"w"\<close> replaces the whole file.\<close>

definition save_students :: "runtime \<Rightarrow> students \<Rightarrow> filesystem \<Rightarrow> filesystem" where
  "save_students rt db fs = fs(STUDENTS_FILE \<mapsto> json_dumps rt db)"

section \<open>The session\<close>

text \<open>
  The state the methods of \<^verbatim>\<open>GeoTutorApp\<close> read and write: the attributes of the object,
  the text of the answer entry, the module's global \<^verbatim>\<open>STUDENTS_DB\<close>, the file system and
  the number of calls made to \<^verbatim>\<open>random\<close>. The widgets that only display (feedback text,
  canvas, mastery bar) are left out.

  \<^verbatim>\<open>self.profile\<close> is the very dict stored at \<^verbatim>\<open>STUDENTS_DB[student_id]\<close>; the model
  keeps the two equal by writing each change of the profile to both.
\<close>

record app =
  student_id :: string
  STUDENTS_DB :: students
  files :: filesystem
  profile :: dict
  bkt :: BKT
  difficulty :: string
  shape_var :: string
  current_problem :: "dict option"
  answer_entry :: string
  random_calls :: nat

text \<open>What a method shows to its caller: a call of \<^verbatim>\<open>messagebox.showerror(title, text)\<close>.\<close>

datatype ui_event = ShowError string string

text \<open>
  \<^verbatim>\<open>_new_problem\<close>, lines 174 to 188: a problem for the selected shape at the current
  difficulty; \<^verbatim>\<open>_update_inputs\<close> empties the answer entry.
\<close>

definition new_problem :: "runtime \<Rightarrow> app \<Rightarrow> app" where
  "new_problem rt self =
     (let (p, k) = generate_problem rt (shape_var self) (difficulty self) (random_calls self)
      in self\<lparr>current_problem := Some p, random_calls := k, answer_entry := []\<rparr>)"

text \<open>The profile created for an id the store does not hold, lines 148 to 154.\<close>

definition default_profile :: "runtime \<Rightarrow> dict" where
  "default_profile rt =
     [(''mastery'', PFloat 0.1), (''difficulty'', PStr ''easy''), (''attempts'', PInt 0),
      (''correct'', PInt 0), (''last_login'', PStr (now_isoformat rt))]"

text \<open>
  \<^verbatim>\<open>GeoTutorApp.__init__\<close>, lines 140 to 163, from the store, the file system and the
  count of random calls at the time of the call. \<^verbatim>\<open>float\<close> of a stored mastery that is
  not a number raises; a mastery read as \<^verbatim>\<open>nan\<close> or an infinity makes
  \<^verbatim>\<open>int(self.bkt.p_known * 100)\<close> in \<^verbatim>\<open>_build_ui\<close> raise (\<^verbatim>\<open>ValueError\<close> and
  \<^verbatim>\<open>OverflowError\<close>); and \<^verbatim>\<open>self.difficulty.capitalize()\<close> in the first
  \<^verbatim>\<open>_new_problem\<close> raises when the stored difficulty is not a string. The store \<open>db1\<close> always
  holds the id, so the lookup of the profile never takes its \<open>None\<close> case.
\<close>

definition GeoTutorApp_init ::
    "runtime \<Rightarrow> string \<Rightarrow> students \<Rightarrow> filesystem \<Rightarrow> nat \<Rightarrow> exn + app" where
  "GeoTutorApp_init rt sid db fs k =
     (let db1 = (if map_of db sid = None then AList.update sid (default_profile rt) db else db);
          prof = (case map_of db1 sid of None \<Rightarrow> [] | Some p \<Rightarrow> p)
      in case py_float rt (dict_get prof ''mastery'' (PFloat 0.1)) of
           Inl e \<Rightarrow> Inl e
         | Inr NaN \<Rightarrow> Inl ValueError
         | Inr PosInf \<Rightarrow> Inl OverflowError
         | Inr NegInf \<Rightarrow> Inl OverflowError
         | Inr (Finite m) \<Rightarrow>
             (case dict_get prof ''difficulty'' (PStr ''easy'') of
                PStr d \<Rightarrow>
                  Inr (new_problem rt
                         \<lparr>student_id = sid, STUDENTS_DB = db1, files = fs, profile = prof,
                          bkt = BKT_init m, difficulty = d, shape_var = ''Triangle'',
                          current_problem = None, answer_entry = [], random_calls = k\<rparr>)
              | _ \<Rightarrow> Inl AttributeError))"

text \<open>
  \<^verbatim>\<open>_save_profile(correct)\<close>, lines 165 to 172. \<^verbatim>\<open>+ 1\<close> on a counter that is not a
  number raises before anything is written to the file.
\<close>

definition save_profile :: "runtime \<Rightarrow> bool \<Rightarrow> app \<Rightarrow> exn + app" where
  "save_profile rt correct self =
     (let p1 = AList.update ''mastery'' (PFloat (p_known (bkt self))) (profile self);
          p2 = AList.update ''difficulty'' (PStr (difficulty self)) p1
      in case py_add1 (dict_get p2 ''attempts'' (PInt 0)) of
           Inl e \<Rightarrow> Inl e
         | Inr a \<Rightarrow>
             (let p3 = AList.update ''attempts'' a p2
              in case (if correct
                       then (case py_add1 (dict_get p3 ''correct'' (PInt 0)) of
                               Inl e \<Rightarrow> Inl e
                             | Inr c \<Rightarrow> Inr (AList.update ''correct'' c p3))
                       else Inr p3) of
                   Inl e \<Rightarrow> Inl e
                 | Inr p4 \<Rightarrow>
                     (let p5 = AList.update ''last_login'' (PStr (now_isoformat rt)) p4;
                          db = AList.update (student_id self) p5 (STUDENTS_DB self)
                      in Inr (self\<lparr>profile := p5, STUDENTS_DB := db,
                                   files := save_students rt db (files self)\<rparr>))))"

text \<open>The promotion and demotion of \<^verbatim>\<open>self.difficulty\<close>, lines 343 to 357.\<close>

definition adjust_difficulty :: "bool \<Rightarrow> string \<Rightarrow> string" where
  "adjust_difficulty correct d =
     (if correct then
        (if d = ''easy'' then ''medium'' else if d = ''medium'' then ''hard'' else d)
      else
        (if d = ''hard'' then ''medium'' else if d = ''medium'' then ''easy'' else d))"

text \<open>
  \<^verbatim>\<open>_check_answer\<close>, lines 323 to 361: what it shows and the state afterwards, or the
  exception that escapes. It returns at once when there is no problem (\<^verbatim>\<open>None\<close> or an
  empty dict); text on which \<^verbatim>\<open>float\<close> raises \<^verbatim>\<open>ValueError\<close> is answered by an error
  dialog and a return; every other text is graded.
\<close>

definition check_answer :: "runtime \<Rightarrow> app \<Rightarrow> exn + ui_event list \<times> app" where
  "check_answer rt self =
     (case current_problem self of
        None \<Rightarrow> Inr ([], self)
      | Some prob \<Rightarrow>
          if prob = [] then Inr ([], self)
          else
            (case parse_float rt (answer_entry self) of
               None \<Rightarrow> Inr ([ShowError ''Error'' ''Please enter a number for the area.''], self)
             | Some user \<Rightarrow>
                 (case map_of prob ''area'' of
                    None \<Rightarrow> Inl KeyError
                  | Some a \<Rightarrow>
                      (case py_float rt a of
                         Inl e \<Rightarrow> Inl e
                       | Inr correct_area \<Rightarrow>
                           (let correct = within_tolerance user correct_area;
                                self1 = self\<lparr>bkt := snd (BKT_update correct (bkt self))\<rparr>;
                                self2 = self1\<lparr>difficulty :=
                                                adjust_difficulty correct (difficulty self1)\<rparr>
                            in case save_profile rt correct self2 of
                                 Inl e \<Rightarrow> Inl e
                               | Inr self3 \<Rightarrow> Inr ([], new_problem rt self3))))))"

section \<open>A runtime for concrete runs\<close>

text \<open>
  A fixed runtime on which the definitions can be evaluated: every random draw is the
  lower end of its range, \<^verbatim>\<open>float\<close> reads three decimal texts and \<^verbatim>\<open>"nan"\<close> and
  \<^verbatim>\<open>"inf"\<close> and raises on every other, and the JSON functions are tables: they write and
  read the empty store and the store of one fresh learner \<^verbatim>\<open>S1\<close>, reading the single
  byte FF (which is not UTF-8) raises \<^verbatim>\<open>UnicodeDecodeError\<close>, and every other text is
  not JSON.
\<close>

definition fresh_profile :: dict where
  "fresh_profile =
     [(''mastery'', PFloat 0.1), (''difficulty'', PStr ''easy''), (''attempts'', PInt 0),
      (''correct'', PInt 0), (''last_login'', PStr ''2025-01-01T09:00:00'')]"

definition fresh_store :: students where
  "fresh_store = [(''S1'', fresh_profile)]"

definition fresh_store_text :: string where
  "fresh_store_text = ''{\"S1\": {\"mastery\": 0.1, \"difficulty\": \"easy\", \"attempts\": 0, \"correct\": 0, \"last_login\": \"2025-01-01T09:00:00\"}}''"

definition fixed_runtime :: runtime where
  "fixed_runtime =
     \<lparr>randint = (\<lambda>k a b. a),
      uniform = (\<lambda>k a b. a),
      parse_float = map_of [(''4.5'', Finite 4.5), (''4.55'', Finite 4.55),
                            (''4.7'', Finite 4.7), (''nan'', NaN), (''inf'', PosInf)],
      json_dumps = (\<lambda>db. if db = [] then ''{}''
                          else if db = fresh_store then fresh_store_text else ''{...}''),
      json_loads = (\<lambda>contents. if contents = ''{}'' then Inr []
                                else if contents = fresh_store_text then Inr fresh_store
                                else if contents = [CHR 0xFF] then Inl UnicodeDecodeError
                                else Inl JSONDecodeError),
      now_isoformat = ''2025-01-01T09:00:00'',
      now_timestamp = ''1735722000.0''\<rparr>"

text \<open>
  The session of the new learner \<^verbatim>\<open>S1\<close> on that runtime, as the constructor leaves it:
  an easy triangle of base 3 and height 3, area 4.5.
\<close>

definition fresh_session :: app where
  "fresh_session =
     \<lparr>student_id = ''S1'', STUDENTS_DB = fresh_store, files = Map.empty,
      profile = fresh_profile, bkt = BKT_init 0.1, difficulty = ''easy'',
      shape_var = ''Triangle'',
      current_problem = Some [(''base'', PInt 3), (''height'', PInt 3), (''area'', PFloat 4.5)],
      answer_entry = [], random_calls = 2\<rparr>"

section \<open>Properties of the mastery model\<close>

lemma BKT_update_params:
  "p_guess (snd (BKT_update c b)) = p_guess b"
  "p_slip (snd (BKT_update c b)) = p_slip b"
  "p_learn (snd (BKT_update c b)) = p_learn b"
  by (simp_all add: BKT_update_def Let_def)

lemma BKT_run_Nil: "BKT_run [] b = b"
  by (simp add: BKT_run_def)

lemma BKT_run_Cons: "BKT_run (c # cs) b = BKT_run cs (snd (BKT_update c b))"
  by (simp add: BKT_run_def)

lemma BKT_run_params:
  "p_guess (BKT_run cs b) = p_guess b \<and> p_slip (BKT_run cs b) = p_slip b \<and>
   p_learn (BKT_run cs b) = p_learn b"
  by (induction cs arbitrary: b) (simp_all add: BKT_run_Nil BKT_run_Cons BKT_update_params)

text \<open>An object whose parameters are the constructor's is the constructor's object.\<close>

lemma BKT_fixed_params:
  assumes "p_guess b = 0.2" "p_slip b = 0.1" "p_learn b = 0.3"
  shows "b = BKT_init (p_known b)"
proof -
  have "b = \<lparr>p_known = p_known b, p_guess = p_guess b, p_slip = p_slip b,
             p_learn = p_learn b\<rparr>"
    by simp
  then show ?thesis
    unfolding assms BKT_init_def .
qed

lemma BKT_run_init: "BKT_run cs (BKT_init p0) = BKT_init (p_known (BKT_run cs (BKT_init p0)))"
proof (rule BKT_fixed_params)
  show "p_guess (BKT_run cs (BKT_init p0)) = 0.2"
    by (simp add: BKT_run_params) (simp add: BKT_init_def)
  show "p_slip (BKT_run cs (BKT_init p0)) = 0.1"
    by (simp add: BKT_run_params) (simp add: BKT_init_def)
  show "p_learn (BKT_run cs (BKT_init p0)) = 0.3"
    by (simp add: BKT_run_params) (simp add: BKT_init_def)
qed

lemma BKT_update_init:
  "BKT_update c (BKT_init p) =
     (py_round (spec_update p c) 3, (BKT_init p)\<lparr>p_known := spec_update p c\<rparr>)"
  by (cases c)
     (simp_all add: BKT_update_def BKT_init_def BKT_num_def BKT_den_def spec_update_def
        spec_posterior_def Let_def)

text \<open>
  A first answer, correct, from the default mastery 0.1: the posterior is 1/3, the
  stored mastery 8/15, and the caller is given 0.533.
\<close>

lemma BKT_update_example:
  "BKT_update True (BKT_init 0.1) =
     (0.533, \<lparr>p_known = 8 / 15, p_guess = 0.2, p_slip = 0.1, p_learn = 0.3\<rparr>)"
  by (simp add: BKT_update_def BKT_init_def BKT_num_def BKT_den_def Let_def py_round_def
      round_half_even_def)

text \<open>
  C2. After any history of updates of an object made by the constructor, \<^verbatim>\<open>update\<close>
  stores the specification's value (posterior by the Bayes formulas with guess 0.2 and
  slip 0.1, the division skipped when the denominator is zero, then the learning step
  with 0.3, always), computed from the stored mastery, and returns that value rounded to
  3 decimals. The stored value is not rounded: a second update starts from it.
\<close>

theorem BKT_update_refines_spec:
  "(let b = BKT_run cs (BKT_init p0)
    in BKT_update c b =
         (py_round (spec_update (p_known b) c) 3, b\<lparr>p_known := spec_update (p_known b) c\<rparr>) \<and>
       p_known (snd (BKT_update c' (snd (BKT_update c b)))) =
         spec_update (spec_update (p_known b) c) c')"
proof -
  define b where "b = BKT_run cs (BKT_init p0)"
  define p where "p = p_known b"
  have b: "b = BKT_init p"
    unfolding b_def p_def by (rule BKT_run_init)
  have one: "BKT_update c b = (py_round (spec_update p c) 3, b\<lparr>p_known := spec_update p c\<rparr>)"
    unfolding b by (rule BKT_update_init)
  have "snd (BKT_update c b) = BKT_init (spec_update p c)"
    unfolding one by (simp add: b BKT_init_def)
  then have two: "p_known (snd (BKT_update c' (snd (BKT_update c b)))) =
      spec_update (spec_update p c) c'"
    by (simp add: BKT_update_init)
  from one two show ?thesis
    unfolding Let_def b_def [symmetric] p_def [symmetric] by simp
qed

text \<open>The denominator is positive on the unit interval, so the posterior is a probability.\<close>

lemma BKT_den_pos:
  assumes "0 \<le> p_known b" "p_known b \<le> 1" "p_guess b = 0.2" "p_slip b = 0.1"
  shows "0 < BKT_den c b"
proof (cases c)
  case True
  have "BKT_den True b = 0.2 + 0.7 * p_known b"
    unfolding BKT_den_def BKT_num_def assms(3,4) by (simp add: field_simps)
  with assms True show ?thesis by simp
next
  case False
  have "BKT_den False b = 0.8 - 0.7 * p_known b"
    unfolding BKT_den_def BKT_num_def assms(3,4) by (simp add: field_simps)
  with assms False show ?thesis by simp
qed

lemma BKT_posterior_unit:
  assumes "0 \<le> p_known b" "p_known b \<le> 1" "p_guess b = 0.2" "p_slip b = 0.1"
  shows "0 \<le> BKT_num c b / BKT_den c b \<and> BKT_num c b / BKT_den c b \<le> 1"
proof -
  have d: "0 < BKT_den c b" using assms by (rule BKT_den_pos)
  have n0: "0 \<le> BKT_num c b"
    unfolding BKT_num_def assms(3,4) using assms(1) by simp
  have nd: "BKT_num c b \<le> BKT_den c b"
    unfolding BKT_den_def assms(3,4) using assms(2) by simp
  from d n0 nd show ?thesis by simp
qed

lemma BKT_update_stored:
  assumes "0 \<le> p_known b" "p_known b \<le> 1" "p_guess b = 0.2" "p_slip b = 0.1"
  shows "snd (BKT_update c b) =
         b\<lparr>p_known := BKT_num c b / BKT_den c b +
                        (1 - BKT_num c b / BKT_den c b) * p_learn b\<rparr>"
proof -
  have "BKT_den c b \<noteq> 0" using BKT_den_pos [OF assms, of c] by simp
  then show ?thesis by (simp add: BKT_update_def Let_def)
qed

lemma BKT_update_unit:
  assumes "0 \<le> p_known b" "p_known b \<le> 1"
    and "p_guess b = 0.2" "p_slip b = 0.1" "p_learn b = 0.3"
  shows "0.3 \<le> p_known (snd (BKT_update c b)) \<and> p_known (snd (BKT_update c b)) \<le> 1"
proof -
  define q where "q = BKT_num c b / BKT_den c b"
  have q: "0 \<le> q" "q \<le> 1"
    using BKT_posterior_unit [OF assms(1-4), of c] by (simp_all add: q_def)
  have "p_known (snd (BKT_update c b)) = q + (1 - q) * 0.3"
    unfolding BKT_update_stored [OF assms(1-4), of c] q_def [symmetric] assms(5) by simp
  with q show ?thesis by argo
qed

lemma BKT_run_unit:
  assumes "0 \<le> p_known b" "p_known b \<le> 1"
    and "p_guess b = 0.2" "p_slip b = 0.1" "p_learn b = 0.3"
  shows "0 \<le> p_known (BKT_run cs b) \<and> p_known (BKT_run cs b) \<le> 1"
  using assms
proof (induction cs arbitrary: b)
  case Nil
  then show ?case by (simp add: BKT_run_Nil)
next
  case (Cons c cs)
  have u: "0.3 \<le> p_known (snd (BKT_update c b)) \<and> p_known (snd (BKT_update c b)) \<le> 1"
    using Cons.prems by (rule BKT_update_unit)
  show ?case
    unfolding BKT_run_Cons
    by (rule Cons.IH) (use u Cons.prems in \<open>simp_all add: BKT_update_params\<close>)
qed

text \<open>
  C3. From an initial mastery in [0, 1], the stored mastery is in [0, 1] after every
  finite sequence of observations, hence after each call of \<^verbatim>\<open>update\<close> in a session
  (each prefix of a sequence is a sequence).
\<close>

theorem BKT_mastery_stays_in_unit_interval:
  assumes "0 \<le> p0" "p0 \<le> 1"
  shows "0 \<le> p_known (BKT_run cs (BKT_init p0)) \<and> p_known (BKT_run cs (BKT_init p0)) \<le> 1"
proof (rule BKT_run_unit)
  show "0 \<le> p_known (BKT_init p0)" using assms(1) by (simp add: BKT_init_def)
  show "p_known (BKT_init p0) \<le> 1" using assms(2) by (simp add: BKT_init_def)
  show "p_guess (BKT_init p0) = 0.2" by (simp add: BKT_init_def)
  show "p_slip (BKT_init p0) = 0.1" by (simp add: BKT_init_def)
  show "p_learn (BKT_init p0) = 0.3" by (simp add: BKT_init_def)
qed

theorem BKT_mastery_stays_in_unit_interval_witness:
  "(0::real) \<le> 0.1 \<and> (0.1::real) \<le> 1 \<and>
   0 \<le> p_known (BKT_run [True, False, True] (BKT_init 0.1)) \<and>
   p_known (BKT_run [True, False, True] (BKT_init 0.1)) \<le> 1"
  using BKT_mastery_stays_in_unit_interval [of "0.1" "[True, False, True]"] by simp

text \<open>
  C9. With guess 0.2 and slip 0.1 and a stored mastery in [0, 1], the denominator of
  \<^verbatim>\<open>update\<close> is the claimed sum and is not zero, so the division is never skipped: the
  object after the call holds the posterior followed by the learning step.
\<close>

theorem BKT_denominator_nonzero:
  assumes "0 \<le> p_known b" "p_known b \<le> 1" "p_guess b = 0.2" "p_slip b = 0.1"
  shows "BKT_den c b =
           (if c then p_known b * (1 - 0.1) + (1 - p_known b) * 0.2
            else p_known b * 0.1 + (1 - p_known b) * (1 - 0.2)) \<and>
         BKT_den c b \<noteq> 0 \<and>
         snd (BKT_update c b) =
           b\<lparr>p_known := BKT_num c b / BKT_den c b +
                          (1 - BKT_num c b / BKT_den c b) * p_learn b\<rparr>"
proof -
  have "BKT_den c b =
      (if c then p_known b * (1 - 0.1) + (1 - p_known b) * 0.2
       else p_known b * 0.1 + (1 - p_known b) * (1 - 0.2))"
    unfolding BKT_den_def BKT_num_def assms(3,4) by simp
  moreover have "BKT_den c b \<noteq> 0"
    using BKT_den_pos [OF assms, of c] by simp
  moreover note BKT_update_stored [OF assms, of c]
  ultimately show ?thesis by blast
qed

theorem BKT_denominator_nonzero_witness:
  "0 \<le> p_known (BKT_init 0.1) \<and> p_known (BKT_init 0.1) \<le> 1 \<and>
   p_guess (BKT_init 0.1) = 0.2 \<and> p_slip (BKT_init 0.1) = 0.1 \<and>
   BKT_den False (BKT_init 0.1) = 0.73 \<and> BKT_den False (BKT_init 0.1) \<noteq> 0"
proof -
  have h: "0 \<le> p_known (BKT_init 0.1)" "p_known (BKT_init 0.1) \<le> 1"
    "p_guess (BKT_init 0.1) = 0.2" "p_slip (BKT_init 0.1) = 0.1"
    by (simp_all add: BKT_init_def)
  have v: "BKT_den False (BKT_init 0.1) = 0.73"
    by (simp add: BKT_den_def BKT_num_def BKT_init_def)
  have "BKT_den False (BKT_init 0.1) \<noteq> 0"
    using BKT_denominator_nonzero [OF h, of False] by blast
  with h v show ?thesis by blast
qed

text \<open>
  C10. With the constructor's parameters and a stored mastery in [0, 1], the stored
  mastery after one update is at least 0.3, whatever the observation.
\<close>

theorem BKT_update_at_least_p_learn:
  assumes "0 \<le> p_known b" "p_known b \<le> 1"
    and "p_guess b = 0.2" "p_slip b = 0.1" "p_learn b = 0.3"
  shows "0.3 \<le> p_known (snd (BKT_update c b))"
  using BKT_update_unit [OF assms, of c] by simp

theorem BKT_update_at_least_p_learn_witness:
  "(0.3::real) \<le> p_known (snd (BKT_update False (BKT_init 0))) \<and>
   p_known (snd (BKT_update False (BKT_init 0))) = 0.3"
proof -
  have h: "0 \<le> p_known (BKT_init 0)" "p_known (BKT_init 0) \<le> 1"
    "p_guess (BKT_init 0) = 0.2" "p_slip (BKT_init 0) = 0.1" "p_learn (BKT_init 0) = 0.3"
    by (simp_all add: BKT_init_def)
  have "p_known (snd (BKT_update False (BKT_init 0))) = 0.3"
    by (simp add: BKT_update_def BKT_init_def BKT_num_def BKT_den_def Let_def)
  then show ?thesis
    using BKT_update_at_least_p_learn [OF h, of False] by simp
qed

section \<open>Properties of the session\<close>

lemma dict_get_update:
  "dict_get (AList.update k v d) k' dflt = (if k' = k then v else dict_get d k' dflt)"
  by (simp add: dict_get_def update_conv')

lemma new_problem_keeps:
  "difficulty (new_problem rt self) = difficulty self"
  "profile (new_problem rt self) = profile self"
  "bkt (new_problem rt self) = bkt self"
  "STUDENTS_DB (new_problem rt self) = STUDENTS_DB self"
  "files (new_problem rt self) = files self"
  "student_id (new_problem rt self) = student_id self"
  by (simp_all add: new_problem_def split: prod.splits)

text \<open>
  \<^verbatim>\<open>_save_profile\<close> on a profile whose counters are integers (or absent, read as 0): it
  does not raise, and this is the state it leaves.
\<close>

lemma save_profile_ints:
  assumes "dict_get (profile self) ''attempts'' (PInt 0) = PInt n"
    and "dict_get (profile self) ''correct'' (PInt 0) = PInt m"
  shows "save_profile rt correct self =
     (let p = AList.update ''last_login'' (PStr (now_isoformat rt))
                ((if correct then AList.update ''correct'' (PInt (m + 1)) else id)
                   (AList.update ''attempts'' (PInt (n + 1))
                      (AList.update ''difficulty'' (PStr (difficulty self))
                         (AList.update ''mastery'' (PFloat (p_known (bkt self)))
                            (profile self)))));
          db = AList.update (student_id self) p (STUDENTS_DB self)
      in Inr (self\<lparr>profile := p, STUDENTS_DB := db,
                   files := save_students rt db (files self)\<rparr>))"
  using assms by (simp add: save_profile_def dict_get_update Let_def)

text \<open>
  \<^verbatim>\<open>_check_answer\<close> on a text that \<^verbatim>\<open>float\<close> reads (as a number, \<^verbatim>\<open>nan\<close> or an infinity),
  for a problem that has an area.
\<close>

lemma check_answer_graded:
  assumes "current_problem self = Some prob" "prob \<noteq> []"
    and "parse_float rt (answer_entry self) = Some user"
    and "map_of prob ''area'' = Some a" "py_float rt a = Inr area"
  shows "check_answer rt self =
     (case save_profile rt (within_tolerance user area)
             (self\<lparr>bkt := snd (BKT_update (within_tolerance user area) (bkt self)),
                   difficulty := adjust_difficulty (within_tolerance user area) (difficulty self)\<rparr>) of
        Inl e \<Rightarrow> Inl e
      | Inr self3 \<Rightarrow> Inr ([], new_problem rt self3))"
  using assms by (simp add: check_answer_def Let_def)

lemma check_answer_graded_finite:
  assumes "current_problem self = Some prob" "prob \<noteq> []"
    and "parse_float rt (answer_entry self) = Some (Finite user)"
    and "map_of prob ''area'' = Some a" "py_float rt a = Inr (Finite area)"
  shows "check_answer rt self =
     (case save_profile rt (\<bar>user - area\<bar> < 0.1)
             (self\<lparr>bkt := snd (BKT_update (\<bar>user - area\<bar> < 0.1) (bkt self)),
                   difficulty := adjust_difficulty (\<bar>user - area\<bar> < 0.1) (difficulty self)\<rparr>) of
        Inl e \<Rightarrow> Inl e
      | Inr self3 \<Rightarrow> Inr ([], new_problem rt self3))"
  using check_answer_graded [OF assms] by simp

lemma adjust_difficulty_saturates:
  "(adjust_difficulty True ^^ n) ''hard'' = ''hard''"
  "(adjust_difficulty False ^^ n) ''easy'' = ''easy''"
  by (induction n) (simp_all add: adjust_difficulty_def)

text \<open>The constructor on the fixed runtime, for the new learner \<^verbatim>\<open>S1\<close> and an empty store.\<close>

lemma GeoTutorApp_init_fresh:
  "GeoTutorApp_init fixed_runtime ''S1'' [] Map.empty 0 = Inr fresh_session"
  by (simp add: GeoTutorApp_init_def fixed_runtime_def default_profile_def dict_get_def
      new_problem_def generate_problem_def fresh_session_def fresh_store_def fresh_profile_def
      py_round_def round_half_even_def Let_def)

text \<open>Every generated problem is a non-empty dict with a float area.\<close>

lemma generate_problem_has_area:
  "\<exists>area. fst (generate_problem rt shape d j) \<noteq> [] \<and>
     map_of (fst (generate_problem rt shape d j)) ''area'' = Some (PFloat area)"
  by (simp add: generate_problem_def Let_def)

lemma new_problem_current:
  "\<exists>prob area. current_problem (new_problem rt s) = Some prob \<and> prob \<noteq> [] \<and>
     map_of prob ''area'' = Some (PFloat area)"
  using generate_problem_has_area [of rt "shape_var s" "difficulty s" "random_calls s"]
  by (auto simp: new_problem_def split: prod.splits)

text \<open>
  The constructor leaves a session in which the profile is the store's entry of the
  learner, and a problem with a float area is waiting.
\<close>

lemma GeoTutorApp_init_invariant:
  assumes "GeoTutorApp_init rt sid db fs k = Inr self"
  shows "map_of (STUDENTS_DB self) (student_id self) = Some (profile self) \<and>
         (\<exists>prob area. current_problem self = Some prob \<and> prob \<noteq> [] \<and>
            map_of prob ''area'' = Some (PFloat area))"
proof -
  from assms obtain s0 where s0: "self = new_problem rt s0"
    and entry: "map_of (STUDENTS_DB s0) (student_id s0) = Some (profile s0)"
    by (auto simp: GeoTutorApp_init_def Let_def update_conv'
        split: sum.splits pyval.splits pyfloat.splits if_splits option.splits)
  show ?thesis
    unfolding s0 using entry new_problem_current [of rt s0]
    by (simp add: new_problem_keeps)
qed

text \<open>
  Grading keeps both facts, so they hold in every state a session reaches: the
  hypotheses of the statements below on the waiting problem exclude no reachable state.
\<close>

lemma save_profile_entry:
  assumes "save_profile rt correct s = Inr s'"
  shows "map_of (STUDENTS_DB s') (student_id s') = Some (profile s')"
  using assms
  by (auto simp: save_profile_def Let_def update_conv' split: sum.splits if_splits)

lemma check_answer_invariant:
  assumes "check_answer rt self = Inr (evs, self')"
    and "map_of (STUDENTS_DB self) (student_id self) = Some (profile self)"
    and "current_problem self = Some prob" "prob \<noteq> []"
  shows "map_of (STUDENTS_DB self') (student_id self') = Some (profile self') \<and>
         (\<exists>prob'. current_problem self' = Some prob' \<and> prob' \<noteq> [])"
proof (cases "parse_float rt (answer_entry self)")
  case None
  with assms show ?thesis
    by (simp add: check_answer_def)
next
  case (Some user)
  with assms obtain correct s2 s3 where s3: "save_profile rt correct s2 = Inr s3"
    and self': "self' = new_problem rt s3"
    by (auto simp: check_answer_def Let_def split: option.splits sum.splits)
  show ?thesis
    unfolding self'
    using save_profile_entry [OF s3] new_problem_current [of rt s3]
    by (auto simp: new_problem_keeps)
qed

text \<open>
  C4. Grading an answer that is a number moves the difficulty one step: up on a correct
  answer (easy to medium, medium to hard, hard stays hard), down on an incorrect one
  (hard to medium, medium to easy, easy stays easy), and the new level is written to the
  profile. Repeating the step any number of times keeps hard at hard on correct answers
  and easy at easy on incorrect ones.
\<close>

theorem check_answer_difficulty_step:
  assumes "current_problem self = Some prob" "prob \<noteq> []"
    and "parse_float rt (answer_entry self) = Some (Finite user)"
    and "map_of prob ''area'' = Some a" "py_float rt a = Inr (Finite area)"
    and "dict_get (profile self) ''attempts'' (PInt 0) = PInt n"
    and "dict_get (profile self) ''correct'' (PInt 0) = PInt m"
  shows "\<exists>self'. check_answer rt self = Inr ([], self') \<and>
     (if \<bar>user - area\<bar> < 0.1
      then (difficulty self = ''easy'' \<longrightarrow> difficulty self' = ''medium'') \<and>
           (difficulty self = ''medium'' \<longrightarrow> difficulty self' = ''hard'') \<and>
           (difficulty self = ''hard'' \<longrightarrow> difficulty self' = ''hard'')
      else (difficulty self = ''hard'' \<longrightarrow> difficulty self' = ''medium'') \<and>
           (difficulty self = ''medium'' \<longrightarrow> difficulty self' = ''easy'') \<and>
           (difficulty self = ''easy'' \<longrightarrow> difficulty self' = ''easy'')) \<and>
     map_of (profile self') ''difficulty'' = Some (PStr (difficulty self')) \<and>
     (adjust_difficulty True ^^ j) ''hard'' = ''hard'' \<and>
     (adjust_difficulty False ^^ j) ''easy'' = ''easy''"
proof -
  let ?c = "\<bar>user - area\<bar> < 0.1"
  let ?s2 = "self\<lparr>bkt := snd (BKT_update ?c (bkt self)),
                   difficulty := adjust_difficulty ?c (difficulty self)\<rparr>"
  obtain s3 where s3: "save_profile rt ?c ?s2 = Inr s3"
    and d3: "difficulty s3 = adjust_difficulty ?c (difficulty self)"
    and p3: "map_of (profile s3) ''difficulty'' =
               Some (PStr (adjust_difficulty ?c (difficulty self)))"
    using save_profile_ints [of ?s2 n m rt ?c] assms(6,7)
    by (simp add: Let_def update_conv')
  have "check_answer rt self = Inr ([], new_problem rt s3)"
    using check_answer_graded_finite [OF assms(1-5)] s3 by simp
  moreover have "difficulty (new_problem rt s3) = adjust_difficulty ?c (difficulty self)"
    using d3 by (simp add: new_problem_keeps)
  moreover have "map_of (profile (new_problem rt s3)) ''difficulty'' =
      Some (PStr (adjust_difficulty ?c (difficulty self)))"
    using p3 by (simp add: new_problem_keeps)
  ultimately show ?thesis
    by (simp add: adjust_difficulty_def adjust_difficulty_saturates)
qed

theorem check_answer_difficulty_step_witness:
  "\<exists>self'. check_answer fixed_runtime (fresh_session\<lparr>answer_entry := ''4.55''\<rparr>) = Inr ([], self') \<and>
     difficulty (fresh_session\<lparr>answer_entry := ''4.55''\<rparr>) = ''easy'' \<and>
     difficulty self' = ''medium''"
proof -
  let ?s = "fresh_session\<lparr>answer_entry := ''4.55''\<rparr>"
  let ?prob = "[(''base'', PInt 3), (''height'', PInt 3), (''area'', PFloat 4.5)]"
  have h: "current_problem ?s = Some ?prob" "?prob \<noteq> []"
    "parse_float fixed_runtime (answer_entry ?s) = Some (Finite 4.55)"
    "map_of ?prob ''area'' = Some (PFloat 4.5)"
    "py_float fixed_runtime (PFloat 4.5) = Inr (Finite 4.5)"
    "dict_get (profile ?s) ''attempts'' (PInt 0) = PInt 0"
    "dict_get (profile ?s) ''correct'' (PInt 0) = PInt 0"
    by (simp_all add: fresh_session_def fixed_runtime_def fresh_profile_def dict_get_def)
  have e: "difficulty ?s = ''easy''"
    by (simp add: fresh_session_def)
  show ?thesis
    using check_answer_difficulty_step [OF h, of 1] e by auto
qed

text \<open>
  C5. An answer that is a number is judged correct exactly when it is within 0.1 of the
  problem's area; the mastery model is updated with that judgement, the attempts counter
  grows by one, the correct counter grows by one exactly when the answer was judged
  correct, and the store, with the learner's new profile and every other learner's
  entry untouched, is written to the profile file before the method returns.
\<close>

theorem check_answer_counts_and_persists:
  assumes "current_problem self = Some prob" "prob \<noteq> []"
    and "parse_float rt (answer_entry self) = Some (Finite user)"
    and "map_of prob ''area'' = Some a" "py_float rt a = Inr (Finite area)"
    and "dict_get (profile self) ''attempts'' (PInt 0) = PInt n"
    and "dict_get (profile self) ''correct'' (PInt 0) = PInt m"
  shows "\<exists>self'. check_answer rt self = Inr ([], self') \<and>
     bkt self' = snd (BKT_update (\<bar>user - area\<bar> < 0.1) (bkt self)) \<and>
     dict_get (profile self') ''attempts'' (PInt 0) = PInt (n + 1) \<and>
     dict_get (profile self') ''correct'' (PInt 0) =
       PInt (if \<bar>user - area\<bar> < 0.1 then m + 1 else m) \<and>
     map_of (STUDENTS_DB self') (student_id self) = Some (profile self') \<and>
     (\<forall>other. other \<noteq> student_id self \<longrightarrow>
        map_of (STUDENTS_DB self') other = map_of (STUDENTS_DB self) other) \<and>
     files self' STUDENTS_FILE = Some (json_dumps rt (STUDENTS_DB self'))"
proof -
  let ?c = "\<bar>user - area\<bar> < 0.1"
  let ?s2 = "self\<lparr>bkt := snd (BKT_update ?c (bkt self)),
                   difficulty := adjust_difficulty ?c (difficulty self)\<rparr>"
  obtain s3 where s3: "save_profile rt ?c ?s2 = Inr s3"
    and b3: "bkt s3 = snd (BKT_update ?c (bkt self))"
    and a3: "dict_get (profile s3) ''attempts'' (PInt 0) = PInt (n + 1)"
    and c3: "dict_get (profile s3) ''correct'' (PInt 0) = PInt (if ?c then m + 1 else m)"
    and db3: "STUDENTS_DB s3 = AList.update (student_id self) (profile s3) (STUDENTS_DB self)"
    and f3: "files s3 STUDENTS_FILE = Some (json_dumps rt (STUDENTS_DB s3))"
    using save_profile_ints [of ?s2 n m rt ?c] assms(6,7)
    by (simp add: Let_def dict_get_update save_students_def)
  have "check_answer rt self = Inr ([], new_problem rt s3)"
    using check_answer_graded_finite [OF assms(1-5)] s3 by simp
  moreover have "map_of (STUDENTS_DB s3) (student_id self) = Some (profile s3)"
    unfolding db3 by (simp add: update_conv')
  moreover have "\<forall>other. other \<noteq> student_id self \<longrightarrow>
      map_of (STUDENTS_DB s3) other = map_of (STUDENTS_DB self) other"
    unfolding db3 by (simp add: update_conv')
  ultimately show ?thesis
    using b3 a3 c3 f3 by (simp add: new_problem_keeps)
qed

theorem check_answer_counts_and_persists_witness:
  "\<exists>self'. check_answer fixed_runtime (fresh_session\<lparr>answer_entry := ''4.7''\<rparr>) = Inr ([], self') \<and>
     dict_get (profile self') ''attempts'' (PInt 0) = PInt 1 \<and>
     dict_get (profile self') ''correct'' (PInt 0) = PInt 0 \<and>
     files self' STUDENTS_FILE = Some (json_dumps fixed_runtime (STUDENTS_DB self'))"
proof -
  let ?s = "fresh_session\<lparr>answer_entry := ''4.7''\<rparr>"
  let ?prob = "[(''base'', PInt 3), (''height'', PInt 3), (''area'', PFloat 4.5)]"
  have h: "current_problem ?s = Some ?prob" "?prob \<noteq> []"
    "parse_float fixed_runtime (answer_entry ?s) = Some (Finite 4.7)"
    "map_of ?prob ''area'' = Some (PFloat 4.5)"
    "py_float fixed_runtime (PFloat 4.5) = Inr (Finite 4.5)"
    "dict_get (profile ?s) ''attempts'' (PInt 0) = PInt 0"
    "dict_get (profile ?s) ''correct'' (PInt 0) = PInt 0"
    by (simp_all add: fresh_session_def fixed_runtime_def fresh_profile_def dict_get_def)
  show ?thesis
    using check_answer_counts_and_persists [OF h] by auto
qed

text \<open>
  When a problem is waiting and \<^verbatim>\<open>float\<close> raises \<^verbatim>\<open>ValueError\<close> on the text of the
  answer entry, the method shows the error dialog and returns: mastery, difficulty,
  profile, store and file system are those before the call.
\<close>

lemma check_answer_invalid_format:
  assumes "current_problem self = Some prob" "prob \<noteq> []"
    and "parse_float rt (answer_entry self) = None"
  shows "check_answer rt self =
           Inr ([ShowError ''Error'' ''Please enter a number for the area.''], self)"
  using assms by (simp add: check_answer_def)

lemma check_answer_invalid_format_example:
  "check_answer fixed_runtime (fresh_session\<lparr>answer_entry := ''abc''\<rparr>) =
     Inr ([ShowError ''Error'' ''Please enter a number for the area.''],
          fresh_session\<lparr>answer_entry := ''abc''\<rparr>)"
proof -
  let ?s = "fresh_session\<lparr>answer_entry := ''abc''\<rparr>"
  let ?prob = "[(''base'', PInt 3), (''height'', PInt 3), (''area'', PFloat 4.5)]"
  have h: "current_problem ?s = Some ?prob" "?prob \<noteq> []"
    "parse_float fixed_runtime (answer_entry ?s) = None"
    by (simp_all add: fresh_session_def fixed_runtime_def)
  show ?thesis
    using check_answer_invalid_format [OF h] .
qed

text \<open>
  A text that \<^verbatim>\<open>float\<close> reads as \<^verbatim>\<open>nan\<close> or as an infinity is not a number, but no
  \<^verbatim>\<open>ValueError\<close> is raised for it: the answer is graded as incorrect, with every effect
  of a graded answer and no error dialog.
\<close>

lemma check_answer_not_a_number:
  assumes "current_problem self = Some prob" "prob \<noteq> []"
    and "parse_float rt (answer_entry self) = Some user" "user = NaN \<or> user = PosInf \<or> user = NegInf"
    and "map_of prob ''area'' = Some a" "py_float rt a = Inr area"
    and "dict_get (profile self) ''attempts'' (PInt 0) = PInt n"
    and "dict_get (profile self) ''correct'' (PInt 0) = PInt m"
  shows "\<exists>self'. check_answer rt self = Inr ([], self') \<and>
     bkt self' = snd (BKT_update False (bkt self)) \<and>
     difficulty self' = adjust_difficulty False (difficulty self) \<and>
     dict_get (profile self') ''attempts'' (PInt 0) = PInt (n + 1) \<and>
     map_of (profile self') ''mastery'' = Some (PFloat (p_known (bkt self'))) \<and>
     files self' STUDENTS_FILE = Some (json_dumps rt (STUDENTS_DB self'))"
proof -
  have c: "within_tolerance user area = False"
    using assms(4) by auto
  let ?s2 = "self\<lparr>bkt := snd (BKT_update False (bkt self)),
                   difficulty := adjust_difficulty False (difficulty self)\<rparr>"
  obtain s3 where s3: "save_profile rt False ?s2 = Inr s3"
    and b3: "bkt s3 = snd (BKT_update False (bkt self))"
    and d3: "difficulty s3 = adjust_difficulty False (difficulty self)"
    and a3: "dict_get (profile s3) ''attempts'' (PInt 0) = PInt (n + 1)"
    and m3: "map_of (profile s3) ''mastery'' = Some (PFloat (p_known (snd (BKT_update False (bkt self)))))"
    and f3: "files s3 STUDENTS_FILE = Some (json_dumps rt (STUDENTS_DB s3))"
    using save_profile_ints [of ?s2 n m rt False] assms(7,8)
    by (simp add: Let_def dict_get_update update_conv' save_students_def)
  have "check_answer rt self = Inr ([], new_problem rt s3)"
    using check_answer_graded [OF assms(1-3,5,6)] s3 by (simp add: c)
  then show ?thesis
    using b3 d3 a3 m3 f3 by (simp add: new_problem_keeps)
qed

text \<open>
  C6. The answer text \<^verbatim>\<open>nan\<close> does not parse as a number, yet the new learner's session
  grades it: no error is shown, the stored mastery moves from 0.1 to 113/365, the
  attempts counter from 0 to 1, the new mastery is written to the profile and the store
  is written to the profile file, which did not exist before.
\<close>

theorem check_answer_grades_nan:
  "p_known (bkt fresh_session) = 0.1 \<and>
   dict_get (profile fresh_session) ''attempts'' (PInt 0) = PInt 0 \<and>
   files fresh_session STUDENTS_FILE = None \<and>
   (\<exists>self'. check_answer fixed_runtime (fresh_session\<lparr>answer_entry := ''nan''\<rparr>) = Inr ([], self') \<and>
      p_known (bkt self') = 113 / 365 \<and>
      dict_get (profile self') ''attempts'' (PInt 0) = PInt 1 \<and>
      map_of (profile self') ''mastery'' = Some (PFloat (113 / 365)) \<and>
      files self' STUDENTS_FILE = Some (json_dumps fixed_runtime (STUDENTS_DB self')))"
proof -
  let ?s = "fresh_session\<lparr>answer_entry := ''nan''\<rparr>"
  let ?prob = "[(''base'', PInt 3), (''height'', PInt 3), (''area'', PFloat 4.5)]"
  have h: "current_problem ?s = Some ?prob" "?prob \<noteq> []"
    "parse_float fixed_runtime (answer_entry ?s) = Some NaN"
    "NaN = NaN \<or> NaN = PosInf \<or> NaN = NegInf"
    "map_of ?prob ''area'' = Some (PFloat 4.5)"
    "py_float fixed_runtime (PFloat 4.5) = Inr (Finite 4.5)"
    "dict_get (profile ?s) ''attempts'' (PInt 0) = PInt 0"
    "dict_get (profile ?s) ''correct'' (PInt 0) = PInt 0"
    by (simp_all add: fresh_session_def fixed_runtime_def fresh_profile_def dict_get_def)
  have before: "p_known (bkt fresh_session) = 0.1"
    "dict_get (profile fresh_session) ''attempts'' (PInt 0) = PInt 0"
    "files fresh_session STUDENTS_FILE = None"
    by (simp_all add: fresh_session_def BKT_init_def fresh_profile_def dict_get_def)
  have upd: "p_known (snd (BKT_update False (bkt ?s))) = 113 / 365"
    by (simp add: fresh_session_def BKT_update_def BKT_init_def BKT_num_def BKT_den_def Let_def)
  from check_answer_not_a_number [OF h] obtain self'
    where "check_answer fixed_runtime ?s = Inr ([], self')"
      and "bkt self' = snd (BKT_update False (bkt ?s))"
      and "dict_get (profile self') ''attempts'' (PInt 0) = PInt (0 + 1)"
      and "map_of (profile self') ''mastery'' = Some (PFloat (p_known (bkt self')))"
      and "files self' STUDENTS_FILE = Some (json_dumps fixed_runtime (STUDENTS_DB self'))"
    by blast
  with upd before show ?thesis
    by auto
qed

section \<open>Properties of the profile store\<close>

lemma backup_path_differs: "STUDENTS_FILE @ ''.bak_'' @ ts \<noteq> STUDENTS_FILE"
  by simp

text \<open>
  When the profile file exists and \<^verbatim>\<open>json.load\<close> raises \<^verbatim>\<open>json.JSONDecodeError\<close> on its
  contents, \<^verbatim>\<open>load_students\<close> returns the empty mapping; afterwards the contents stand,
  unchanged, at the path \<^verbatim>\<open>students_data.json.bak_<timestamp>\<close>, the profile file itself
  is gone, and no other file is touched.
\<close>

lemma load_students_quarantines_corrupt_file:
  assumes "fs STUDENTS_FILE = Some contents" "json_loads rt contents = Inl JSONDecodeError"
  shows "fst (load_students rt fs) = Inr [] \<and>
         snd (load_students rt fs) (STUDENTS_FILE @ ''.bak_'' @ now_timestamp rt) = Some contents \<and>
         snd (load_students rt fs) STUDENTS_FILE = None \<and>
         (\<forall>path. path \<noteq> STUDENTS_FILE \<and> path \<noteq> STUDENTS_FILE @ ''.bak_'' @ now_timestamp rt \<longrightarrow>
            snd (load_students rt fs) path = fs path)"
  using assms by (simp add: load_students_def)

lemma load_students_quarantines_corrupt_file_example:
  "fst (load_students fixed_runtime [STUDENTS_FILE \<mapsto> ''{not json'']) = Inr [] \<and>
   snd (load_students fixed_runtime [STUDENTS_FILE \<mapsto> ''{not json''])
     ''students_data.json.bak_1735722000.0'' = Some ''{not json'' \<and>
   snd (load_students fixed_runtime [STUDENTS_FILE \<mapsto> ''{not json'']) ''students_data.json'' = None"
proof -
  have h: "[STUDENTS_FILE \<mapsto> ''{not json''] STUDENTS_FILE = Some ''{not json''"
    "json_loads fixed_runtime ''{not json'' = Inl JSONDecodeError"
    by (simp_all add: fixed_runtime_def fresh_store_text_def)
  show ?thesis
    using h load_students_quarantines_corrupt_file
            [of "[STUDENTS_FILE \<mapsto> ''{not json'']" "''{not json''" fixed_runtime]
    by (simp add: STUDENTS_FILE_def fixed_runtime_def)
qed

text \<open>
  Any other exception of \<^verbatim>\<open>json.load\<close> is not caught: it reaches the caller, and the file
  is neither renamed nor changed.
\<close>

lemma load_students_other_exception:
  assumes "fs STUDENTS_FILE = Some contents" "json_loads rt contents = Inl e"
    and "e \<noteq> JSONDecodeError"
  shows "load_students rt fs = (Inl e, fs)"
  using assms by (simp add: load_students_def)

text \<open>
  C7. A profile file that holds the single byte FF does not deserialize: the byte is not
  UTF-8 text, and \<^verbatim>\<open>json.load\<close> raises \<^verbatim>\<open>UnicodeDecodeError\<close>. \<^verbatim>\<open>load_students\<close> lets
  that exception reach its caller; no mapping is returned, no backup is made, and the
  file stays where it was.
\<close>

theorem load_students_raises_on_undecodable_file:
  "load_students fixed_runtime [STUDENTS_FILE \<mapsto> [CHR 0xFF]] =
     (Inl UnicodeDecodeError, [STUDENTS_FILE \<mapsto> [CHR 0xFF]])"
  by (simp add: load_students_def fixed_runtime_def fresh_store_text_def)

text \<open>
  The part of a save followed by a load that is the program's own: both use the same
  path, the save replaces the whole file and the load finds it. What is read back is
  then whatever \<^verbatim>\<open>json.load\<close> makes of the text \<^verbatim>\<open>json.dump\<close> wrote.
\<close>

lemma load_after_save_students:
  "load_students rt (save_students rt m fs) =
     (case json_loads rt (json_dumps rt m) of
        Inr db \<Rightarrow> (Inr db, save_students rt m fs)
      | Inl e \<Rightarrow>
          if e = JSONDecodeError
          then (Inr [], (fs(STUDENTS_FILE := None))
                          (STUDENTS_FILE @ ''.bak_'' @ now_timestamp rt \<mapsto> json_dumps rt m))
          else (Inl e, save_students rt m fs))"
  by (simp add: load_students_def save_students_def split: sum.splits)

section \<open>Properties of the problem generator\<close>

lemma round_half_even_of_int: "round_half_even (of_int n) = n"
  by (simp add: round_half_even_def)

lemma py_round_half_product:
  "py_round (of_int b * of_int h / 2) 2 = of_int b * of_int h / 2"
proof -
  have "of_int b * of_int h / 2 * 10 ^ 2 = (of_int (50 * b * h) :: real)"
    by simp
  then show ?thesis
    unfolding py_round_def by (simp only: round_half_even_of_int) simp
qed

text \<open>
  On the branches that draw integers only (easy, and the medium square and rectangle)
  the stored area is the formula applied to the stored dimensions, exactly.
\<close>

lemma generate_problem_easy_area:
  "map_of (fst (generate_problem rt shape ''easy'' k)) ''area'' =
     map_option PFloat (formula_area shape (fst (generate_problem rt shape ''easy'' k)))"
proof -
  consider "shape = ''Triangle''" | "shape = ''Square''"
    | "shape \<noteq> ''Triangle''" "shape \<noteq> ''Square''"
    by blast
  then show ?thesis
  proof cases
    case 1
    then show ?thesis
      by (simp add: generate_problem_def formula_area_def dim_def Let_def py_round_half_product)
  next
    case 2
    then show ?thesis
      by (simp add: generate_problem_def formula_area_def dim_def Let_def)
  next
    case 3
    then show ?thesis
      by (simp add: generate_problem_def formula_area_def dim_def Let_def)
  qed
qed

lemma generate_problem_medium_area:
  assumes "shape \<noteq> ''Triangle''"
  shows "map_of (fst (generate_problem rt shape ''medium'' k)) ''area'' =
     map_option PFloat (formula_area shape (fst (generate_problem rt shape ''medium'' k)))"
proof (cases "shape = ''Square''")
  case True
  then show ?thesis
    by (simp add: generate_problem_def formula_area_def dim_def Let_def)
next
  case False
  with assms show ?thesis
    by (simp add: generate_problem_def formula_area_def dim_def Let_def)
qed

text \<open>
  C1. The branches that draw reals store the dimensions rounded to one decimal but compute
  the area from the unrounded draws. A hard square whose draw is 24.949 is stored with
  side 24.9 and area 622.45, while the square of the stored side is 620.01: the stored
  area is 2.44 away from the formula on the stored dimensions, far beyond the rounding
  of the area to two decimals and beyond the 0.1 within which an answer is accepted.
\<close>

theorem generate_problem_hard_square_area:
  "(let rt = fixed_runtime\<lparr>uniform := (\<lambda>k a b. 24.949)\<rparr>;
        p = fst (generate_problem rt ''Square'' ''hard'' 0)
    in p = [(''side'', PFloat 24.9), (''area'', PFloat 622.45)] \<and>
       formula_area ''Square'' p = Some 620.01)"
  by (simp add: generate_problem_def fixed_runtime_def formula_area_def dim_def Let_def
      py_round_def round_half_even_def)

text \<open>
  The medium triangle has the same shape of defect: with base 12 and a height drawn as
  9.949 the stored height is 9.9 and the stored area 59.69, against 59.4 by the formula.
\<close>

lemma generate_problem_medium_triangle_area:
  "(let rt = fixed_runtime\<lparr>randint := (\<lambda>k a b. 12), uniform := (\<lambda>k a b. 9.949)\<rparr>;
        p = fst (generate_problem rt ''Triangle'' ''medium'' 0)
    in p = [(''base'', PInt 12), (''height'', PFloat 9.9), (''area'', PFloat 59.69)] \<and>
       formula_area ''Triangle'' p = Some 59.4)"
  by (simp add: generate_problem_def fixed_runtime_def formula_area_def dim_def Let_def
      py_round_def round_half_even_def)

end
